theory Spec2Isabelle
  imports Complex_Main "HOL-Library.Monad_Syntax"
begin

section \<open>Triangle3.cpp: the geometric kernel of the Thea toolkit\<close>

text \<open>
  The embedding follows \<^verbatim>\<open>Code/Source/Triangle3.cpp\<close>. The scalar type \<^verbatim>\<open>Real\<close>
  (and \<^verbatim>\<open>float\<close>) is modelled by the exact reals: additions, multiplications and
  comparisons are the mathematical ones and no rounding, overflow or NaN is represented.
  The functions embedded below branch on signs and comparisons of sums and products of a
  few coordinates; the one function whose result rests on overflow is left out (see the
  overlap test without division).
  The C functions returning \<^verbatim>\<open>int\<close> 0 or 1 are modelled as \<open>bool\<close>. Out-parameters
  are modelled by explicit state passing: the caller's value goes in, the value after the
  call comes out.
\<close>

subsection \<open>Vectors\<close>

text \<open>A \<^verbatim>\<open>Real[3]\<close> array, and a \<^verbatim>\<open>Vector3\<close>: three coordinates.\<close>

datatype vec3 = Vec3 (vx: real) (vy: real) (vz: real)

text \<open>
  Array subscript \<^verbatim>\<open>v[i]\<close> for the locally computed indices of the triangle-triangle
  tests, which the code only ever sets to 0, 1 or 2.
\<close>

definition el :: "vec3 \<Rightarrow> nat \<Rightarrow> real" where
  "el v i = (if i = 0 then vx v else if i = 1 then vy v else vz v)"

text \<open>
  \<^verbatim>\<open>Vector3::operator[]\<close> with a caller-influenced \<^verbatim>\<open>int\<close> index: \<^verbatim>\<open>values[i]\<close> on a
  three-element array. A subscript outside 0..2 is an out-of-bounds read, modelled as
  \<open>None\<close>.
\<close>

definition vec_at :: "vec3 \<Rightarrow> int \<Rightarrow> real option" where
  "vec_at v i = (if i = 0 then Some (vx v) else if i = 1 then Some (vy v)
             else if i = 2 then Some (vz v) else None)"

text \<open>The macros \<^verbatim>\<open>CROSS\<close>, \<^verbatim>\<open>DOT\<close>, \<^verbatim>\<open>SUB\<close>, \<^verbatim>\<open>ADD\<close>, \<^verbatim>\<open>MULT\<close>; the destination is returned.\<close>

definition CROSS :: "vec3 \<Rightarrow> vec3 \<Rightarrow> vec3" where
  "CROSS v1 v2 = Vec3 (el v1 1 * el v2 2 - el v1 2 * el v2 1)
                      (el v1 2 * el v2 0 - el v1 0 * el v2 2)
                      (el v1 0 * el v2 1 - el v1 1 * el v2 0)"

definition DOT :: "vec3 \<Rightarrow> vec3 \<Rightarrow> real" where
  "DOT v1 v2 = el v1 0 * el v2 0 + el v1 1 * el v2 1 + el v1 2 * el v2 2"

definition SUB :: "vec3 \<Rightarrow> vec3 \<Rightarrow> vec3" where
  "SUB v1 v2 = Vec3 (el v1 0 - el v2 0) (el v1 1 - el v2 1) (el v1 2 - el v2 2)"

definition ADD :: "vec3 \<Rightarrow> vec3 \<Rightarrow> vec3" where
  "ADD v1 v2 = Vec3 (el v1 0 + el v2 0) (el v1 1 + el v2 1) (el v1 2 + el v2 2)"

definition MULT :: "vec3 \<Rightarrow> real \<Rightarrow> vec3" where
  "MULT v factor = Vec3 (factor * el v 0) (factor * el v 1) (factor * el v 2)"

text \<open>\<^verbatim>\<open>Vector3::squaredNorm\<close>: the dot product of a vector with itself.\<close>

definition squaredNorm :: "vec3 \<Rightarrow> real" where
  "squaredNorm v = DOT v v"

text \<open>\<^verbatim>\<open>EPSILON\<close> of the coplanarity robustness check.\<close>

definition EPSILON :: real where
  "EPSILON = 1 / 1000000"

subsection \<open>Closest point on a segment and on a triangle's perimeter\<close>

text \<open>\<^verbatim>\<open>closestPointOnLineSegment\<close> (lines 739-766).\<close>

definition closestPointOnLineSegment :: "vec3 \<Rightarrow> vec3 \<Rightarrow> vec3 \<Rightarrow> real \<Rightarrow> vec3 \<Rightarrow> vec3" where
  "closestPointOnLineSegment v0 v1 edgeDirection edgeLength point =
     (let c = SUB point v0;
          t = DOT edgeDirection c
      in if t \<le> 0 then v0
         else if t \<ge> edgeLength then v1
         else ADD v0 (MULT edgeDirection t))"

text \<open>
  A three-element array argument (\<^verbatim>\<open>Vector3 const v[3]\<close>, \<^verbatim>\<open>float const edgeLength[3]\<close>)
  and its subscript, which \<^verbatim>\<open>closestPointOnTrianglePerimeter\<close> uses at 0, 1 and 2 only.
\<close>

type_synonym 'a arr3 = "'a \<times> 'a \<times> 'a"

definition sub3 :: "'a arr3 \<Rightarrow> nat \<Rightarrow> 'a" where
  "sub3 a i = (case a of (x, y, z) \<Rightarrow> if i = 0 then x else if i = 1 then y else z)"

text \<open>The table \<^verbatim>\<open>next[] = {1, 2, 0}\<close>.\<close>

definition next_idx :: "nat \<Rightarrow> nat" where
  "next_idx i = sub3 (1, 2, 0) i"

text \<open>
  \<^verbatim>\<open>closestPointOnTrianglePerimeter\<close> (lines 768-816). \<open>perimeter_r\<close> and \<open>perimeter_d\<close>
  are the entries \<^verbatim>\<open>r[i]\<close> and \<^verbatim>\<open>d[i]\<close> that the loop fills in; the result is the returned
  point together with the out-parameter \<^verbatim>\<open>edgeIndex\<close>.
\<close>

definition perimeter_r :: "vec3 arr3 \<Rightarrow> vec3 arr3 \<Rightarrow> real arr3 \<Rightarrow> vec3 \<Rightarrow> nat \<Rightarrow> vec3" where
  "perimeter_r v edgeDirection edgeLength point i =
     closestPointOnLineSegment (sub3 v i) (sub3 v (next_idx i)) (sub3 edgeDirection i)
       (sub3 edgeLength i) point"

definition perimeter_d :: "vec3 arr3 \<Rightarrow> vec3 arr3 \<Rightarrow> real arr3 \<Rightarrow> vec3 \<Rightarrow> nat \<Rightarrow> real" where
  "perimeter_d v edgeDirection edgeLength point i =
     squaredNorm (SUB (perimeter_r v edgeDirection edgeLength point i) point)"

definition closestPointOnTrianglePerimeter ::
  "vec3 arr3 \<Rightarrow> vec3 arr3 \<Rightarrow> real arr3 \<Rightarrow> vec3 \<Rightarrow> vec3 \<times> nat" where
  "closestPointOnTrianglePerimeter v edgeDirection edgeLength point =
     (let r = perimeter_r v edgeDirection edgeLength point;
          d = perimeter_d v edgeDirection edgeLength point;
          edgeIndex = (if d 0 < d 1 then (if d 0 < d 2 then 0 else 2)
                       else (if d 1 < d 2 then 1 else 2))
      in (r edgeIndex, edgeIndex))"

subsection \<open>Point containment\<close>

text \<open>The \<^verbatim>\<open>switch (primary_axis)\<close> of \<^verbatim>\<open>isPointInsideTriangle\<close>: the pair \<^verbatim>\<open>(i, j)\<close>.\<close>

definition select_axes :: "int \<Rightarrow> int \<times> int" where
  "select_axes primary_axis =
     (if primary_axis = 1 then (2, 0)
      else if primary_axis = 2 then (0, 1)
      else (1, 2))"

text \<open>
  The macro \<^verbatim>\<open>THEA_TRIANGLE_AREA2(d, e, f)\<close>, with the \<^verbatim>\<open>i\<close> and \<^verbatim>\<open>j\<close> it captures as
  arguments. Each coordinate read may be out of bounds.
\<close>

definition THEA_TRIANGLE_AREA2 :: "int \<Rightarrow> int \<Rightarrow> vec3 \<Rightarrow> vec3 \<Rightarrow> vec3 \<Rightarrow> real option" where
  "THEA_TRIANGLE_AREA2 i j d e f =
     do {
       ei \<leftarrow> vec_at e i;
       di \<leftarrow> vec_at d i;
       fj \<leftarrow> vec_at f j;
       dj \<leftarrow> vec_at d j;
       fi \<leftarrow> vec_at f i;
       ej \<leftarrow> vec_at e j;
       Some ((ei - di) * (fj - dj) - (fi - di) * (ej - dj))
     }"

text \<open>
  \<^verbatim>\<open>isPointInsideTriangle\<close> (lines 839-886). \<open>None\<close> is an out-of-bounds coordinate read;
  \<^verbatim>\<open>v0 == p\<close> is the coordinate-wise equality of \<^verbatim>\<open>Vector3\<close>.
\<close>

definition isPointInsideTriangle :: "vec3 \<Rightarrow> vec3 \<Rightarrow> vec3 \<Rightarrow> int \<Rightarrow> vec3 \<Rightarrow> bool option" where
  "isPointInsideTriangle v0 v1 v2 primary_axis p =
     (case select_axes primary_axis of (i, j) \<Rightarrow>
        do {
          area \<leftarrow> THEA_TRIANGLE_AREA2 i j v0 v1 v2;
          if area = 0 then Some (v0 = p)
          else do {
            let inv_area = 1 / area;
            a0 \<leftarrow> THEA_TRIANGLE_AREA2 i j p v1 v2;
            let b0 = a0 * inv_area;
            if b0 < 0 \<or> b0 > 1 then Some False
            else do {
              a1 \<leftarrow> THEA_TRIANGLE_AREA2 i j v0 p v2;
              let b1 = a1 * inv_area;
              if b1 < 0 \<or> b1 > 1 then Some False
              else do {
                let b2 = 1 - b0 - b1;
                Some (b2 \<ge> 0 \<and> b2 \<le> 1)
              }
            }
          }
        })"

subsection \<open>Ray-triangle intersection time\<close>

record Ray3 =
  getOrigin :: vec3
  getDirection :: vec3

text \<open>The function-local constant \<^verbatim>\<open>EPS = 1e-30f\<close>.\<close>

definition EPS :: real where
  "EPS = 1 / 10 ^ 30"

text \<open>
  \<^verbatim>\<open>rayTriangleIntersectionTime\<close> (lines 888-946). The first \<^verbatim>\<open>if\<close> chain either returns
  \<open>-1\<close> or fixes \<^verbatim>\<open>sign\<close> and replaces \<^verbatim>\<open>DdN\<close> by its absolute value; \<open>ray_sign\<close> is that
  chain, with \<open>None\<close> for the return.
\<close>

definition ray_sign :: "real \<Rightarrow> (real \<times> real) option" where
  "ray_sign DdN =
     (if DdN > EPS then Some (1, DdN)
      else if DdN < - EPS then Some (- 1, - DdN)
      else None)"

definition rayTriangleIntersectionTime :: "Ray3 \<Rightarrow> vec3 \<Rightarrow> vec3 \<Rightarrow> vec3 \<Rightarrow> real" where
  "rayTriangleIntersectionTime ray v0 edge01 edge02 =
     (let diff = SUB (getOrigin ray) v0;
          normal = CROSS edge01 edge02
      in case ray_sign (DOT (getDirection ray) normal) of
           None \<Rightarrow> - 1
         | Some (sign, DdN) \<Rightarrow>
             (let DdQxE2 = sign * DOT (getDirection ray) (CROSS diff edge02)
              in if DdQxE2 \<ge> 0 then
                   (let DdE1xQ = sign * DOT (getDirection ray) (CROSS edge01 diff)
                    in if DdE1xQ \<ge> 0 then
                         (if DdQxE2 + DdE1xQ \<le> DdN then
                            (let QdN = - sign * DOT diff normal
                             in if QdN \<ge> 0 then QdN / DdN else - 1)
                          else - 1)
                       else - 1)
                 else - 1))"

subsection \<open>Coplanar triangle-triangle test\<close>

text \<open>
  The macro \<^verbatim>\<open>EDGE_EDGE_TEST(V0,U0,U1)\<close> with the variables it captures (\<^verbatim>\<open>i0\<close>, \<^verbatim>\<open>i1\<close>,
  \<^verbatim>\<open>Ax\<close>, \<^verbatim>\<open>Ay\<close>) as arguments. The value \<open>True\<close> stands for reaching \<^verbatim>\<open>return 1\<close>.
\<close>

definition EDGE_EDGE_TEST :: "nat \<Rightarrow> nat \<Rightarrow> real \<Rightarrow> real \<Rightarrow> vec3 \<Rightarrow> vec3 \<Rightarrow> vec3 \<Rightarrow> bool" where
  "EDGE_EDGE_TEST i0 i1 Ax Ay V0 U0 U1 =
     (let Bx = el U0 i0 - el U1 i0;
          By = el U0 i1 - el U1 i1;
          Cx = el V0 i0 - el U0 i0;
          Cy = el V0 i1 - el U0 i1;
          f = Ay * Bx - Ax * By;
          d = By * Cx - Bx * Cy
      in if (f > 0 \<and> d \<ge> 0 \<and> d \<le> f) \<or> (f < 0 \<and> d \<le> 0 \<and> d \<ge> f) then
           (let e = Ax * Cy - Ay * Cx
            in if f > 0 then e \<ge> 0 \<and> e \<le> f else e \<le> 0 \<and> e \<ge> f)
         else False)"

definition EDGE_AGAINST_TRI_EDGES :: "nat \<Rightarrow> nat \<Rightarrow> vec3 \<Rightarrow> vec3 \<Rightarrow> vec3 \<Rightarrow> vec3 \<Rightarrow> vec3 \<Rightarrow> bool" where
  "EDGE_AGAINST_TRI_EDGES i0 i1 V0 V1 U0 U1 U2 =
     (let Ax = el V1 i0 - el V0 i0;
          Ay = el V1 i1 - el V0 i1
      in if EDGE_EDGE_TEST i0 i1 Ax Ay V0 U0 U1 then True
         else if EDGE_EDGE_TEST i0 i1 Ax Ay V0 U1 U2 then True
         else EDGE_EDGE_TEST i0 i1 Ax Ay V0 U2 U0)"

definition POINT_IN_TRI :: "nat \<Rightarrow> nat \<Rightarrow> vec3 \<Rightarrow> vec3 \<Rightarrow> vec3 \<Rightarrow> vec3 \<Rightarrow> bool" where
  "POINT_IN_TRI i0 i1 V0 U0 U1 U2 =
     (let a = el U1 i1 - el U0 i1;
          b = - (el U1 i0 - el U0 i0);
          c = - a * el U0 i0 - b * el U0 i1;
          d0 = a * el V0 i0 + b * el V0 i1 + c;
          a = el U2 i1 - el U1 i1;
          b = - (el U2 i0 - el U1 i0);
          c = - a * el U1 i0 - b * el U1 i1;
          d1 = a * el V0 i0 + b * el V0 i1 + c;
          a = el U0 i1 - el U2 i1;
          b = - (el U0 i0 - el U2 i0);
          c = - a * el U2 i0 - b * el U2 i1;
          d2 = a * el V0 i0 + b * el V0 i1 + c
      in if d0 * d1 > 0 then d0 * d2 > 0 else False)"

text \<open>The choice of the projection plane at the start of \<^verbatim>\<open>coplanar_tri_tri\<close>: \<^verbatim>\<open>(i0, i1)\<close>.\<close>

definition coplanar_axes :: "vec3 \<Rightarrow> nat \<times> nat" where
  "coplanar_axes N =
     (let A0 = \<bar>el N 0\<bar>; A1 = \<bar>el N 1\<bar>; A2 = \<bar>el N 2\<bar>
      in if A0 > A1 then (if A0 > A2 then (1, 2) else (0, 1))
         else (if A2 > A1 then (0, 1) else (0, 2)))"

text \<open>\<^verbatim>\<open>coplanar_tri_tri\<close> (lines 160-206).\<close>

definition coplanar_tri_tri :: "vec3 \<Rightarrow> vec3 \<Rightarrow> vec3 \<Rightarrow> vec3 \<Rightarrow> vec3 \<Rightarrow> vec3 \<Rightarrow> vec3 \<Rightarrow> bool" where
  "coplanar_tri_tri N V0 V1 V2 U0 U1 U2 =
     (case coplanar_axes N of (i0, i1) \<Rightarrow>
        if EDGE_AGAINST_TRI_EDGES i0 i1 V0 V1 U0 U1 U2 then True
        else if EDGE_AGAINST_TRI_EDGES i0 i1 V1 V2 U0 U1 U2 then True
        else if EDGE_AGAINST_TRI_EDGES i0 i1 V2 V0 U0 U1 U2 then True
        else if POINT_IN_TRI i0 i1 V0 U0 U1 U2 then True
        else if POINT_IN_TRI i0 i1 U0 V0 V1 V2 then True
        else False)"

subsection \<open>The common opening of the three triangle-triangle tests\<close>

text \<open>The coplanarity robustness check \<^verbatim>\<open>if (fabs(d) < EPSILON) d = 0\<close>.\<close>

definition snap :: "real \<Rightarrow> real" where
  "snap d = (if \<bar>d\<bar> < EPSILON then 0 else d)"

text \<open>
  The plane equation of triangle \<^verbatim>\<open>(V0,V1,V2)\<close> and the snapped signed distances of
  \<^verbatim>\<open>U0\<close>, \<^verbatim>\<open>U1\<close>, \<^verbatim>\<open>U2\<close> to it: the normal and the three distances. The three functions
  run this block twice each, the second time with the triangles exchanged.
\<close>

definition plane_dists :: "vec3 \<Rightarrow> vec3 \<Rightarrow> vec3 \<Rightarrow> vec3 \<Rightarrow> vec3 \<Rightarrow> vec3 \<Rightarrow> vec3 \<times> real \<times> real \<times> real" where
  "plane_dists V0 V1 V2 U0 U1 U2 =
     (let E1 = SUB V1 V0;
          E2 = SUB V2 V0;
          N1 = CROSS E1 E2;
          d1 = - DOT N1 V0;
          du0 = snap (DOT N1 U0 + d1);
          du1 = snap (DOT N1 U1 + d1);
          du2 = snap (DOT N1 U2 + d1)
      in (N1, du0, du1, du2))"

text \<open>The index of the largest component of \<^verbatim>\<open>D\<close>.\<close>

definition largest_index :: "vec3 \<Rightarrow> nat" where
  "largest_index D =
     (let max0 = \<bar>el D 0\<bar>;
          b = \<bar>el D 1\<bar>;
          c = \<bar>el D 2\<bar>;
          (max1, index1) = (if b > max0 then (b, 1) else (max0, 0))
      in if c > max1 then 2 else index1)"

text \<open>The macros \<^verbatim>\<open>SORT\<close> and \<^verbatim>\<open>SORT2\<close> on a two-element array.\<close>

definition SORT :: "real \<times> real \<Rightarrow> real \<times> real" where
  "SORT ab = (case ab of (a, b) \<Rightarrow> if a > b then (b, a) else (a, b))"

definition SORT2 :: "real \<times> real \<Rightarrow> (real \<times> real) \<times> nat" where
  "SORT2 ab = (case ab of (a, b) \<Rightarrow> if a > b then ((b, a), 1) else ((a, b), 0))"

subsection \<open>Triangle-triangle overlap test, with division\<close>

definition ISECT :: "real \<Rightarrow> real \<Rightarrow> real \<Rightarrow> real \<Rightarrow> real \<Rightarrow> real \<Rightarrow> real \<times> real" where
  "ISECT VV0 VV1 VV2 D0 D1 D2 =
     (VV0 + (VV1 - VV0) * D0 / (D0 - D1), VV0 + (VV2 - VV0) * D0 / (D0 - D2))"

text \<open>
  The macro \<^verbatim>\<open>COMPUTE_INTERVALS\<close>. \<open>None\<close> is its last branch, where the enclosing function
  returns \<^verbatim>\<open>coplanar_tri_tri(N1,V0,V1,V2,U0,U1,U2)\<close>.
\<close>

definition COMPUTE_INTERVALS ::
  "real \<Rightarrow> real \<Rightarrow> real \<Rightarrow> real \<Rightarrow> real \<Rightarrow> real \<Rightarrow> real \<Rightarrow> real \<Rightarrow> (real \<times> real) option" where
  "COMPUTE_INTERVALS VV0 VV1 VV2 D0 D1 D2 D0D1 D0D2 =
     (if D0D1 > 0 then Some (ISECT VV2 VV0 VV1 D2 D0 D1)
      else if D0D2 > 0 then Some (ISECT VV1 VV0 VV2 D1 D0 D2)
      else if D1 * D2 > 0 \<or> D0 \<noteq> 0 then Some (ISECT VV0 VV1 VV2 D0 D1 D2)
      else if D1 \<noteq> 0 then Some (ISECT VV1 VV0 VV2 D1 D0 D2)
      else if D2 \<noteq> 0 then Some (ISECT VV2 VV0 VV1 D2 D0 D1)
      else None)"

text \<open>\<^verbatim>\<open>tri_tri_intersect\<close> (lines 209-302).\<close>

definition tri_tri_intersect :: "vec3 \<Rightarrow> vec3 \<Rightarrow> vec3 \<Rightarrow> vec3 \<Rightarrow> vec3 \<Rightarrow> vec3 \<Rightarrow> bool" where
  "tri_tri_intersect V0 V1 V2 U0 U1 U2 =
     (case plane_dists V0 V1 V2 U0 U1 U2 of (N1, du0, du1, du2) \<Rightarrow>
        let du0du1 = du0 * du1;
            du0du2 = du0 * du2
        in if du0du1 > 0 \<and> du0du2 > 0 then False
           else
             (case plane_dists U0 U1 U2 V0 V1 V2 of (N2, dv0, dv1, dv2) \<Rightarrow>
                let dv0dv1 = dv0 * dv1;
                    dv0dv2 = dv0 * dv2
                in if dv0dv1 > 0 \<and> dv0dv2 > 0 then False
                   else
                     (let D = CROSS N1 N2;
                          index = largest_index D;
                          vp0 = el V0 index; vp1 = el V1 index; vp2 = el V2 index;
                          up0 = el U0 index; up1 = el U1 index; up2 = el U2 index
                      in case COMPUTE_INTERVALS vp0 vp1 vp2 dv0 dv1 dv2 dv0dv1 dv0dv2 of
                           None \<Rightarrow> coplanar_tri_tri N1 V0 V1 V2 U0 U1 U2
                         | Some isect1 \<Rightarrow>
                             (case COMPUTE_INTERVALS up0 up1 up2 du0 du1 du2 du0du1 du0du2 of
                                None \<Rightarrow> coplanar_tri_tri N1 V0 V1 V2 U0 U1 U2
                              | Some isect2 \<Rightarrow>
                                  (let s1 = SORT isect1;
                                       s2 = SORT isect2
                                   in if snd s1 < fst s2 \<or> snd s2 < fst s1 then False
                                      else True)))))"

subsection \<open>Triangle-triangle overlap test, without division\<close>

text \<open>
  \<^verbatim>\<open>NoDivTriTriIsect\<close> (lines 340-445) repeats \<^verbatim>\<open>tri_tri_intersect\<close> up to the projection
  and then compares the interval endpoints multiplied through by all four denominators:
  \<^verbatim>\<open>xx = x0 * x1\<close>, \<^verbatim>\<open>yy = y0 * y1\<close>, \<^verbatim>\<open>xxyy = xx * yy\<close>, \<^verbatim>\<open>tmp = a * xxyy\<close>. These are
  products of up to thirteen coordinate differences, and in \<^verbatim>\<open>Real\<close> they leave the finite
  range for coordinates of a few thousand: what the function then returns is decided by
  infinities and NaN, which exact reals do not have. The function is therefore not
  embedded; the section on the two overlap tests records the division-based result on
  such a pair.
\<close>

subsection \<open>Triangle-triangle test with the intersection segment\<close>

text \<open>
  The inline function \<^verbatim>\<open>isect2\<close> (lines 460-474): the values written to \<^verbatim>\<open>*isect0\<close>,
  \<^verbatim>\<open>*isect1\<close>, \<^verbatim>\<open>isectpoint0\<close> and \<^verbatim>\<open>isectpoint1\<close>.
\<close>

definition isect2 ::
  "vec3 \<Rightarrow> vec3 \<Rightarrow> vec3 \<Rightarrow> real \<Rightarrow> real \<Rightarrow> real \<Rightarrow> real \<Rightarrow> real \<Rightarrow> real
     \<Rightarrow> real \<times> real \<times> vec3 \<times> vec3" where
  "isect2 VTX0 VTX1 VTX2 VV0 VV1 VV2 D0 D1 D2 =
     (let tmp = D0 / (D0 - D1);
          isect0 = VV0 + (VV1 - VV0) * tmp;
          diff = SUB VTX1 VTX0;
          diff = MULT diff tmp;
          isectpoint0 = ADD diff VTX0;
          tmp = D0 / (D0 - D2);
          isect1 = VV0 + (VV2 - VV0) * tmp;
          diff = SUB VTX2 VTX0;
          diff = MULT diff tmp;
          isectpoint1 = ADD VTX0 diff
      in (isect0, isect1, isectpoint0, isectpoint1))"

text \<open>
  \<^verbatim>\<open>compute_intervals_isectline\<close> (lines 491-527). The last argument holds the caller's
  current \<^verbatim>\<open>isect0\<close>, \<^verbatim>\<open>isect1\<close>, \<^verbatim>\<open>isectpoint0\<close>, \<^verbatim>\<open>isectpoint1\<close>; the result is the returned
  flag (\<open>True\<close> for 1, coplanar) and those four after the call.
\<close>

definition compute_intervals_isectline ::
  "vec3 \<Rightarrow> vec3 \<Rightarrow> vec3 \<Rightarrow> real \<Rightarrow> real \<Rightarrow> real \<Rightarrow> real \<Rightarrow> real \<Rightarrow> real \<Rightarrow> real \<Rightarrow> real
     \<Rightarrow> real \<times> real \<times> vec3 \<times> vec3 \<Rightarrow> bool \<times> real \<times> real \<times> vec3 \<times> vec3" where
  "compute_intervals_isectline VERT0 VERT1 VERT2 VV0 VV1 VV2 D0 D1 D2 D0D1 D0D2 cur =
     (if D0D1 > 0 then (False, isect2 VERT2 VERT0 VERT1 VV2 VV0 VV1 D2 D0 D1)
      else if D0D2 > 0 then (False, isect2 VERT1 VERT0 VERT2 VV1 VV0 VV2 D1 D0 D2)
      else if D1 * D2 > 0 \<or> D0 \<noteq> 0 then (False, isect2 VERT0 VERT1 VERT2 VV0 VV1 VV2 D0 D1 D2)
      else if D1 \<noteq> 0 then (False, isect2 VERT1 VERT0 VERT2 VV1 VV0 VV2 D1 D0 D2)
      else if D2 \<noteq> 0 then (False, isect2 VERT2 VERT0 VERT1 VV2 VV0 VV1 D2 D0 D1)
      else (True, cur))"

text \<open>
  The out-parameters of \<^verbatim>\<open>tri_tri_intersect_with_isectline\<close>: \<^verbatim>\<open>*coplanar\<close> (nonzero as
  \<open>True\<close>), \<^verbatim>\<open>isectpt1\<close> and \<^verbatim>\<open>isectpt2\<close>.
\<close>

record isectline_out =
  coplanar :: bool
  isectpt1 :: vec3
  isectpt2 :: vec3

text \<open>
  \<^verbatim>\<open>tri_tri_intersect_with_isectline\<close> (lines 563-737). The argument \<open>out\<close> is what the
  caller's out-parameters hold before the call; the result is the returned value and the
  out-parameters after the call. The local arrays start zero-initialised.
\<close>

definition tri_tri_intersect_with_isectline ::
  "vec3 \<Rightarrow> vec3 \<Rightarrow> vec3 \<Rightarrow> vec3 \<Rightarrow> vec3 \<Rightarrow> vec3 \<Rightarrow> isectline_out \<Rightarrow> bool \<times> isectline_out" where
  "tri_tri_intersect_with_isectline V0 V1 V2 U0 U1 U2 out =
     (case plane_dists V0 V1 V2 U0 U1 U2 of (N1, du0, du1, du2) \<Rightarrow>
        let du0du1 = du0 * du1;
            du0du2 = du0 * du2
        in if du0du1 > 0 \<and> du0du2 > 0 then (False, out)
           else
             (case plane_dists U0 U1 U2 V0 V1 V2 of (N2, dv0, dv1, dv2) \<Rightarrow>
                let dv0dv1 = dv0 * dv1;
                    dv0dv2 = dv0 * dv2
                in if dv0dv1 > 0 \<and> dv0dv2 > 0 then (False, out)
                   else
                     (let D = CROSS N1 N2;
                          index = largest_index D;
                          vp0 = el V0 index; vp1 = el V1 index; vp2 = el V2 index;
                          up0 = el U0 index; up1 = el U1 index; up2 = el U2 index;
                          zero = (0, 0, Vec3 0 0 0, Vec3 0 0 0)
                      in case compute_intervals_isectline V0 V1 V2 vp0 vp1 vp2 dv0 dv1 dv2
                                dv0dv1 dv0dv2 zero of
                           (cop, i10, i11, isectpointA1, isectpointA2) \<Rightarrow>
                      let out = out\<lparr>coplanar := cop\<rparr>
                      in if cop then (coplanar_tri_tri N1 V0 V1 V2 U0 U1 U2, out)
                         else
                           (case compute_intervals_isectline U0 U1 U2 up0 up1 up2 du0 du1 du2
                                   du0du1 du0du2 zero of
                              (ignored, i20, i21, isectpointB1, isectpointB2) \<Rightarrow>
                            case SORT2 (i10, i11) of (s1, smallest1) \<Rightarrow>
                            case SORT2 (i20, i21) of (s2, smallest2) \<Rightarrow>
                              if snd s1 < fst s2 \<or> snd s2 < fst s1 then (False, out)
                              else if fst s2 < fst s1 then
                                (let out = out\<lparr>isectpt1 :=
                                       (if smallest1 = 0 then isectpointA1 else isectpointA2)\<rparr>
                                 in if snd s2 < snd s1 then
                                      (True, out\<lparr>isectpt2 :=
                                         (if smallest2 = 0 then isectpointB2 else isectpointB1)\<rparr>)
                                    else
                                      (True, out\<lparr>isectpt2 :=
                                         (if smallest1 = 0 then isectpointA2 else isectpointA1)\<rparr>))
                              else
                                (let out = out\<lparr>isectpt1 :=
                                       (if smallest2 = 0 then isectpointB1 else isectpointB2)\<rparr>
                                 in if snd s2 > snd s1 then
                                      (True, out\<lparr>isectpt2 :=
                                         (if smallest1 = 0 then isectpointA2 else isectpointA1)\<rparr>)
                                    else
                                      (True, out\<lparr>isectpt2 :=
                                         (if smallest2 = 0 then isectpointB2 else isectpointB1)\<rparr>))))))"

subsection \<open>The crossing of a ray with a triangle's plane\<close>

text \<open>
  The comment in \<^verbatim>\<open>rayTriangleIntersectionTime\<close> gives the equations that the barycentric
  coordinates \<^verbatim>\<open>b1\<close>, \<^verbatim>\<open>b2\<close> and the ray parameter \<^verbatim>\<open>t\<close> of the crossing solve, with
  \<^verbatim>\<open>Q = diff\<close>, \<^verbatim>\<open>D\<close> the ray direction and \<^verbatim>\<open>N = Cross(E1,E2)\<close>:
  \<^verbatim>\<open>|Dot(D,N)|*b1 = sign(Dot(D,N))*Dot(D,Cross(Q,E2))\<close>,
  \<^verbatim>\<open>|Dot(D,N)|*b2 = sign(Dot(D,N))*Dot(D,Cross(E1,Q))\<close>,
  \<^verbatim>\<open>|Dot(D,N)|*t = -sign(Dot(D,N))*Dot(Q,N)\<close>.
  The three definitions below are these quantities, used to state what the function
  returns; they are not part of the function.
\<close>

definition crossing_b1 :: "Ray3 \<Rightarrow> vec3 \<Rightarrow> vec3 \<Rightarrow> vec3 \<Rightarrow> real" where
  "crossing_b1 ray v0 edge01 edge02 =
     DOT (getDirection ray) (CROSS (SUB (getOrigin ray) v0) edge02) /
     DOT (getDirection ray) (CROSS edge01 edge02)"

definition crossing_b2 :: "Ray3 \<Rightarrow> vec3 \<Rightarrow> vec3 \<Rightarrow> vec3 \<Rightarrow> real" where
  "crossing_b2 ray v0 edge01 edge02 =
     DOT (getDirection ray) (CROSS edge01 (SUB (getOrigin ray) v0)) /
     DOT (getDirection ray) (CROSS edge01 edge02)"

definition crossing_t :: "Ray3 \<Rightarrow> vec3 \<Rightarrow> vec3 \<Rightarrow> vec3 \<Rightarrow> real" where
  "crossing_t ray v0 edge01 edge02 =
     - DOT (SUB (getOrigin ray) v0) (CROSS edge01 edge02) /
     DOT (getDirection ray) (CROSS edge01 edge02)"

subsection \<open>The closing interval test\<close>

text \<open>
  The two overlap tests end with \<^verbatim>\<open>SORT\<close> on both intervals and
  \<^verbatim>\<open>if (isect1[1] < isect2[0] || isect2[1] < isect1[0]) return 0\<close>. \<open>disjoint_sorted\<close>
  names the condition of that \<^verbatim>\<open>if\<close>, for use in the proofs.
\<close>

definition disjoint_sorted :: "real \<times> real \<Rightarrow> real \<times> real \<Rightarrow> bool" where
  "disjoint_sorted i1 i2 = (snd (SORT i1) < fst (SORT i2) \<or> snd (SORT i2) < fst (SORT i1))"

section \<open>Properties\<close>

lemmas vec_defs = el_def CROSS_def DOT_def SUB_def ADD_def MULT_def

subsection \<open>Closest point on a segment\<close>

text \<open>
  Claim C7. For a segment from \<open>v0\<close> to \<open>v1 = v0 + edgeLength * edgeDirection\<close> with
  \<open>edgeLength \<ge> 0\<close> and every query point, \<open>closestPointOnLineSegment\<close> returns \<open>v0\<close>
  when the scalar projection of \<open>point - v0\<close> onto the direction is at most 0, \<open>v1\<close> when
  it is at least the length, and \<open>v0\<close> plus the projection times the direction otherwise.
  For the segment (0,0,0)-(1,0,0) it returns (1,0,0) for the query (2,0,0), (0,0,0) for
  (-1,0,0) and (0.5,0,0) for (0.5,1,0).
\<close>

theorem closestPointOnLineSegment_clamp:
  assumes "0 \<le> edgeLength" and "v1 = ADD v0 (MULT edgeDirection edgeLength)"
  shows "(DOT edgeDirection (SUB point v0) \<le> 0 \<longrightarrow>
            closestPointOnLineSegment v0 v1 edgeDirection edgeLength point = v0) \<and>
         (DOT edgeDirection (SUB point v0) \<ge> edgeLength \<longrightarrow>
            closestPointOnLineSegment v0 v1 edgeDirection edgeLength point = v1) \<and>
         (\<not> DOT edgeDirection (SUB point v0) \<le> 0 \<and> \<not> DOT edgeDirection (SUB point v0) \<ge> edgeLength \<longrightarrow>
            closestPointOnLineSegment v0 v1 edgeDirection edgeLength point =
              ADD v0 (MULT edgeDirection (DOT edgeDirection (SUB point v0)))) \<and>
         closestPointOnLineSegment (Vec3 0 0 0) (Vec3 1 0 0) (Vec3 1 0 0) 1 (Vec3 2 0 0) = Vec3 1 0 0 \<and>
         closestPointOnLineSegment (Vec3 0 0 0) (Vec3 1 0 0) (Vec3 1 0 0) 1 (Vec3 (- 1) 0 0) = Vec3 0 0 0 \<and>
         closestPointOnLineSegment (Vec3 0 0 0) (Vec3 1 0 0) (Vec3 1 0 0) 1 (Vec3 (1/2) 1 0) = Vec3 (1/2) 0 0"
proof -
  let ?t = "DOT edgeDirection (SUB point v0)"
  have a: "?t \<le> 0 \<longrightarrow> closestPointOnLineSegment v0 v1 edgeDirection edgeLength point = v0"
    by (simp add: closestPointOnLineSegment_def Let_def)
  have b: "?t \<ge> edgeLength \<longrightarrow> closestPointOnLineSegment v0 v1 edgeDirection edgeLength point = v1"
  proof
    assume ge: "?t \<ge> edgeLength"
    show "closestPointOnLineSegment v0 v1 edgeDirection edgeLength point = v1"
    proof (cases "?t \<le> 0")
      case True
      with ge assms(1) have "edgeLength = 0" by linarith
      with assms(2) have "v1 = v0" by (cases v0) (simp add: vec_defs)
      with True show ?thesis by (simp add: closestPointOnLineSegment_def Let_def)
    next
      case False
      with ge show ?thesis by (simp add: closestPointOnLineSegment_def Let_def)
    qed
  qed
  have c: "\<not> ?t \<le> 0 \<and> \<not> ?t \<ge> edgeLength \<longrightarrow>
            closestPointOnLineSegment v0 v1 edgeDirection edgeLength point =
              ADD v0 (MULT edgeDirection ?t)"
    by (simp add: closestPointOnLineSegment_def Let_def)
  have d: "closestPointOnLineSegment (Vec3 0 0 0) (Vec3 1 0 0) (Vec3 1 0 0) 1 (Vec3 2 0 0) = Vec3 1 0 0"
    by (simp add: closestPointOnLineSegment_def Let_def vec_defs)
  have e: "closestPointOnLineSegment (Vec3 0 0 0) (Vec3 1 0 0) (Vec3 1 0 0) 1 (Vec3 (- 1) 0 0) = Vec3 0 0 0"
    by (simp add: closestPointOnLineSegment_def Let_def vec_defs)
  have f: "closestPointOnLineSegment (Vec3 0 0 0) (Vec3 1 0 0) (Vec3 1 0 0) 1 (Vec3 (1/2) 1 0) = Vec3 (1/2) 0 0"
    by (simp add: closestPointOnLineSegment_def Let_def vec_defs)
  from a b c d e f show ?thesis by blast
qed

theorem closestPointOnLineSegment_clamp_witness:
  "(0::real) \<le> 1 \<and> Vec3 1 0 0 = ADD (Vec3 0 0 0) (MULT (Vec3 1 0 0) 1) \<and>
   closestPointOnLineSegment (Vec3 0 0 0) (Vec3 1 0 0) (Vec3 1 0 0) 1 (Vec3 2 0 0) = Vec3 1 0 0"
proof -
  have h1: "(0::real) \<le> 1" by simp
  have h2: "Vec3 1 0 0 = ADD (Vec3 0 0 0) (MULT (Vec3 1 0 0) 1)" by (simp add: vec_defs)
  have h3: "DOT (Vec3 1 0 0) (SUB (Vec3 2 0 0) (Vec3 0 0 0)) \<ge> 1" by (simp add: vec_defs)
  from closestPointOnLineSegment_clamp [OF h1 h2, of "Vec3 2 0 0"] h1 h2 h3 show ?thesis by blast
qed

subsection \<open>Ray-triangle intersection time\<close>

text \<open>
  The quantities \<open>crossing_t\<close>, \<open>crossing_b1\<close> and \<open>crossing_b2\<close> are the solution of
  \<open>origin + t * direction = v0 + b1 * edge01 + b2 * edge02\<close> whenever the ray is not
  parallel to the triangle's plane.
\<close>

lemma solve_component:
  fixes N :: real
  assumes "N \<noteq> 0" and "(o' - p) * N - d * QN = a * X + b * Y"
  shows "o' + (- QN / N) * d = p + (X / N * a + Y / N * b)"
proof -
  have "o' + (- QN / N) * d = ((o' - p) * N - d * QN) / N + p"
    using assms(1) by (simp add: field_simps)
  also have "\<dots> = (a * X + b * Y) / N + p" by (simp only: assms(2))
  also have "\<dots> = p + (X / N * a + Y / N * b)"
    using assms(1) by (simp add: field_simps)
  finally show ?thesis .
qed

lemma crossing_solves:
  assumes "DOT (getDirection ray) (CROSS edge01 edge02) \<noteq> 0"
  shows "ADD (getOrigin ray) (MULT (getDirection ray) (crossing_t ray v0 edge01 edge02)) =
         ADD v0 (ADD (MULT edge01 (crossing_b1 ray v0 edge01 edge02))
                     (MULT edge02 (crossing_b2 ray v0 edge01 edge02)))"
proof -
  obtain ox oy oz where o: "getOrigin ray = Vec3 ox oy oz" by (cases "getOrigin ray")
  obtain dx dy dz where d: "getDirection ray = Vec3 dx dy dz" by (cases "getDirection ray")
  obtain px py pz where p: "v0 = Vec3 px py pz" by (cases v0)
  obtain ax ay az where a: "edge01 = Vec3 ax ay az" by (cases edge01)
  obtain bx by' bz where b: "edge02 = Vec3 bx by' bz" by (cases edge02)
  define N where "N = DOT (getDirection ray) (CROSS edge01 edge02)"
  define QN where "QN = DOT (SUB (getOrigin ray) v0) (CROSS edge01 edge02)"
  define X where "X = DOT (getDirection ray) (CROSS (SUB (getOrigin ray) v0) edge02)"
  define Y where "Y = DOT (getDirection ray) (CROSS edge01 (SUB (getOrigin ray) v0))"
  have nz: "N \<noteq> 0" using assms by (simp add: N_def)
  have kx: "(ox - px) * N - dx * QN = ax * X + bx * Y"
    by (simp add: N_def QN_def X_def Y_def o d p a b vec_defs algebra_simps)
  have ky: "(oy - py) * N - dy * QN = ay * X + by' * Y"
    by (simp add: N_def QN_def X_def Y_def o d p a b vec_defs algebra_simps)
  have kz: "(oz - pz) * N - dz * QN = az * X + bz * Y"
    by (simp add: N_def QN_def X_def Y_def o d p a b vec_defs algebra_simps)
  have t: "crossing_t ray v0 edge01 edge02 = - QN / N"
    and b1: "crossing_b1 ray v0 edge01 edge02 = X / N"
    and b2: "crossing_b2 ray v0 edge01 edge02 = Y / N"
    by (simp_all add: crossing_t_def crossing_b1_def crossing_b2_def N_def QN_def X_def Y_def)
  show ?thesis
    unfolding t b1 b2
    using solve_component [OF nz kx] solve_component [OF nz ky] solve_component [OF nz kz]
    by (simp add: o d p a b vec_defs)
qed

lemma ray_core:
  fixes d :: real
  assumes "d > 0"
  shows "(if x \<ge> 0 then (if y \<ge> 0 then (if x + y \<le> d then (if q \<ge> 0 then q / d else - 1) else - 1) else - 1) else - 1)
         = (if x / d < 0 \<or> y / d < 0 \<or> x / d + y / d > 1 \<or> q / d < 0 then - 1 else q / d)"
proof -
  have 1: "x / d < 0 \<longleftrightarrow> \<not> x \<ge> 0" using assms by (simp add: divide_less_0_iff not_le)
  have 2: "y / d < 0 \<longleftrightarrow> \<not> y \<ge> 0" using assms by (simp add: divide_less_0_iff not_le)
  have 3: "q / d < 0 \<longleftrightarrow> \<not> q \<ge> 0" using assms by (simp add: divide_less_0_iff not_le)
  have 4: "x / d + y / d > 1 \<longleftrightarrow> \<not> x + y \<le> d" using assms by (simp add: field_simps not_le)
  show ?thesis unfolding 1 2 3 4 by simp
qed

lemma ray_sign_pos: "ray_sign n = Some (sign, DdN) \<Longrightarrow> DdN > 0"
  by (auto simp: ray_sign_def EPS_def split: if_splits)

lemma ray_value:
  fixes ray :: Ray3 and v0 edge01 edge02 :: vec3
  assumes rs: "ray_sign (DOT (getDirection ray) (CROSS edge01 edge02)) = Some (sign, DdN)"
  defines "A \<equiv> DOT (getDirection ray) (CROSS (SUB (getOrigin ray) v0) edge02)"
    and "B \<equiv> DOT (getDirection ray) (CROSS edge01 (SUB (getOrigin ray) v0))"
    and "C \<equiv> DOT (SUB (getOrigin ray) v0) (CROSS edge01 edge02)"
  shows "rayTriangleIntersectionTime ray v0 edge01 edge02 =
           (if sign * A / DdN < 0 \<or> sign * B / DdN < 0 \<or> sign * A / DdN + sign * B / DdN > 1 \<or>
               - sign * C / DdN < 0 then - 1
            else - sign * C / DdN)"
proof -
  have "rayTriangleIntersectionTime ray v0 edge01 edge02 =
          (if sign * A \<ge> 0 then
             (if sign * B \<ge> 0 then
                (if sign * A + sign * B \<le> DdN then
                   (if - sign * C \<ge> 0 then - sign * C / DdN else - 1)
                 else - 1)
              else - 1)
           else - 1)"
    by (simp only: rayTriangleIntersectionTime_def Let_def rs option.case prod.case A_def B_def C_def)
  also have "\<dots> = (if sign * A / DdN < 0 \<or> sign * B / DdN < 0 \<or>
                      sign * A / DdN + sign * B / DdN > 1 \<or> - sign * C / DdN < 0 then - 1
                   else - sign * C / DdN)"
    by (rule ray_core [OF ray_sign_pos [OF rs]])
  finally show ?thesis .
qed

lemma ray_time_cases:
  "rayTriangleIntersectionTime ray v0 edge01 edge02 =
     (if \<bar>DOT (getDirection ray) (CROSS edge01 edge02)\<bar> \<le> EPS then - 1
      else if crossing_b1 ray v0 edge01 edge02 < 0 \<or> crossing_b2 ray v0 edge01 edge02 < 0 \<or>
              crossing_b1 ray v0 edge01 edge02 + crossing_b2 ray v0 edge01 edge02 > 1 \<or>
              crossing_t ray v0 edge01 edge02 < 0 then - 1
      else crossing_t ray v0 edge01 edge02)"
proof -
  let ?n = "DOT (getDirection ray) (CROSS edge01 edge02)"
  have eps: "EPS > 0" by (simp add: EPS_def)
  consider (par) "\<bar>?n\<bar> \<le> EPS" | (pos) "?n > EPS" | (neg) "?n < - EPS" by linarith
  then show ?thesis
  proof cases
    case par
    then have "\<not> ?n > EPS" and "\<not> ?n < - EPS" by linarith+
    then have "ray_sign ?n = None" by (simp add: ray_sign_def)
    with par show ?thesis by (simp add: rayTriangleIntersectionTime_def Let_def)
  next
    case pos
    then have rs: "ray_sign ?n = Some (1, ?n)" by (simp add: ray_sign_def)
    from pos eps have np: "\<not> \<bar>?n\<bar> \<le> EPS" by linarith
    show ?thesis
      unfolding ray_value [OF rs] crossing_b1_def crossing_b2_def crossing_t_def
      using np by simp
  next
    case neg
    then have rs: "ray_sign ?n = Some (- 1, - ?n)" using eps by (simp add: ray_sign_def)
    from neg eps have np: "\<not> \<bar>?n\<bar> \<le> EPS" by linarith
    show ?thesis
      unfolding ray_value [OF rs] crossing_b1_def crossing_b2_def crossing_t_def
      using np by simp
  qed
qed

text \<open>
  Claim C5. \<open>rayTriangleIntersectionTime\<close> returns the sentinel \<open>-1\<close> when the absolute
  value of direction \<open>\<cdot>\<close> normal is within the tolerance \<open>EPS\<close>, when a barycentric coordinate
  of the crossing is negative or their sum exceeds 1, or when the ray parameter of the
  crossing is negative; otherwise it returns the ray parameter of the crossing.
\<close>

theorem rayTriangleIntersectionTime_cases:
  "rayTriangleIntersectionTime ray v0 edge01 edge02 =
     (if \<bar>DOT (getDirection ray) (CROSS edge01 edge02)\<bar> \<le> EPS then - 1
      else if crossing_b1 ray v0 edge01 edge02 < 0 \<or> crossing_b2 ray v0 edge01 edge02 < 0 \<or>
              crossing_b1 ray v0 edge01 edge02 + crossing_b2 ray v0 edge01 edge02 > 1 \<or>
              crossing_t ray v0 edge01 edge02 < 0 then - 1
      else crossing_t ray v0 edge01 edge02)"
  by (rule ray_time_cases)

text \<open>
  Claim C9. The value returned by \<open>rayTriangleIntersectionTime\<close> is either exactly \<open>-1\<close>
  or non-negative.
\<close>

theorem rayTriangleIntersectionTime_sentinel_or_nonneg:
  "rayTriangleIntersectionTime ray v0 edge01 edge02 = - 1 \<or>
   rayTriangleIntersectionTime ray v0 edge01 edge02 \<ge> 0"
  unfolding ray_time_cases by auto

subsection \<open>Point containment\<close>

text \<open>
  Claim C6. When the projected area computed by \<open>isPointInsideTriangle\<close> is zero, the
  result is true exactly when the query point equals \<open>v0\<close>; for a triangle whose three
  vertices are one point \<open>P\<close>, the result is true for the query \<open>P\<close> and false for every
  other query.
\<close>

theorem isPointInsideTriangle_zero_area:
  "(THEA_TRIANGLE_AREA2 (fst (select_axes primary_axis)) (snd (select_axes primary_axis)) v0 v1 v2 = Some 0
      \<longrightarrow> isPointInsideTriangle v0 v1 v2 primary_axis p = Some (v0 = p)) \<and>
   isPointInsideTriangle P P P primary_axis q = Some (P = q)"
proof
  show "THEA_TRIANGLE_AREA2 (fst (select_axes primary_axis)) (snd (select_axes primary_axis)) v0 v1 v2 = Some 0
      \<longrightarrow> isPointInsideTriangle v0 v1 v2 primary_axis p = Some (v0 = p)"
    by (simp add: isPointInsideTriangle_def split: prod.splits)
next
  obtain i j where ij: "select_axes primary_axis = (i, j)" by (cases "select_axes primary_axis")
  have "THEA_TRIANGLE_AREA2 (fst (select_axes primary_axis)) (snd (select_axes primary_axis)) P P P = Some 0"
    by (simp add: THEA_TRIANGLE_AREA2_def select_axes_def vec_at_def)
  then have "THEA_TRIANGLE_AREA2 i j P P P = Some 0" by (simp add: ij)
  then show "isPointInsideTriangle P P P primary_axis q = Some (P = q)"
    by (simp add: isPointInsideTriangle_def ij)
qed

theorem isPointInsideTriangle_zero_area_witness:
  "THEA_TRIANGLE_AREA2 (fst (select_axes 0)) (snd (select_axes 0)) (Vec3 0 0 0) (Vec3 0 1 1) (Vec3 0 2 2) = Some 0 \<and>
   isPointInsideTriangle (Vec3 0 0 0) (Vec3 0 1 1) (Vec3 0 2 2) 0 (Vec3 0 1 1) = Some False"
proof -
  have h: "THEA_TRIANGLE_AREA2 (fst (select_axes 0)) (snd (select_axes 0)) (Vec3 0 0 0) (Vec3 0 1 1) (Vec3 0 2 2) = Some 0"
    by (simp add: THEA_TRIANGLE_AREA2_def select_axes_def vec_at_def)
  from isPointInsideTriangle_zero_area [of 0 "Vec3 0 0 0" "Vec3 0 1 1" "Vec3 0 2 2" "Vec3 0 1 1"] h
  show ?thesis by simp
qed

lemma area2_total:
  "THEA_TRIANGLE_AREA2 (fst (select_axes a)) (snd (select_axes a)) d e f \<noteq> None"
  by (simp add: THEA_TRIANGLE_AREA2_def select_axes_def vec_at_def)

text \<open>
  Claim C10. \<open>isPointInsideTriangle\<close> is total in \<open>primary_axis\<close>: every value other than
  1 and 2 selects the projection coordinates (1, 2) and gives the result of axis 0, and no
  value of the axis leads to an out-of-bounds coordinate read.
\<close>

theorem isPointInsideTriangle_axis_total:
  "(primary_axis \<noteq> 1 \<and> primary_axis \<noteq> 2 \<longrightarrow>
      select_axes primary_axis = (1, 2) \<and>
      isPointInsideTriangle v0 v1 v2 primary_axis p = isPointInsideTriangle v0 v1 v2 0 p) \<and>
   isPointInsideTriangle v0 v1 v2 primary_axis p \<noteq> None"
proof
  show "primary_axis \<noteq> 1 \<and> primary_axis \<noteq> 2 \<longrightarrow>
      select_axes primary_axis = (1, 2) \<and>
      isPointInsideTriangle v0 v1 v2 primary_axis p = isPointInsideTriangle v0 v1 v2 0 p"
    by (simp add: isPointInsideTriangle_def select_axes_def)
next
  obtain i j where ij: "select_axes primary_axis = (i, j)" by (cases "select_axes primary_axis")
  from area2_total [of primary_axis v0 v1 v2] obtain area where
    1: "THEA_TRIANGLE_AREA2 i j v0 v1 v2 = Some area" by (auto simp: ij)
  from area2_total [of primary_axis p v1 v2] obtain a0 where
    2: "THEA_TRIANGLE_AREA2 i j p v1 v2 = Some a0" by (auto simp: ij)
  from area2_total [of primary_axis v0 p v2] obtain a1 where
    3: "THEA_TRIANGLE_AREA2 i j v0 p v2 = Some a1" by (auto simp: ij)
  show "isPointInsideTriangle v0 v1 v2 primary_axis p \<noteq> None"
    by (auto simp: isPointInsideTriangle_def ij 1 2 3 Let_def)
qed

theorem isPointInsideTriangle_axis_total_witness:
  "(3::int) \<noteq> 1 \<and> (3::int) \<noteq> 2 \<and> select_axes 3 = (1, 2) \<and>
   isPointInsideTriangle (Vec3 0 0 0) (Vec3 0 1 0) (Vec3 0 0 1) 3 (Vec3 5 (1/4) (1/4)) =
     isPointInsideTriangle (Vec3 0 0 0) (Vec3 0 1 0) (Vec3 0 0 1) 0 (Vec3 5 (1/4) (1/4)) \<and>
   isPointInsideTriangle (Vec3 0 0 0) (Vec3 0 1 0) (Vec3 0 0 1) 3 (Vec3 5 (1/4) (1/4)) = Some True"
proof -
  have v: "isPointInsideTriangle (Vec3 0 0 0) (Vec3 0 1 0) (Vec3 0 0 1) 0 (Vec3 5 (1/4) (1/4)) = Some True"
    by (simp add: isPointInsideTriangle_def select_axes_def THEA_TRIANGLE_AREA2_def vec_at_def Let_def)
  from isPointInsideTriangle_axis_total [of 3 "Vec3 0 0 0" "Vec3 0 1 0" "Vec3 0 0 1" "Vec3 5 (1/4) (1/4)"] v
  show ?thesis by simp
qed

subsection \<open>Closest point on a triangle's perimeter\<close>

text \<open>The 3-4-5 triangle (0,0,0), (3,0,0), (3,4,0) and its incentre (2,1,0).\<close>

lemma r345:
  "perimeter_r (Vec3 0 0 0, Vec3 3 0 0, Vec3 3 4 0)
     (Vec3 1 0 0, Vec3 0 1 0, Vec3 (- (3 / 5)) (- (4 / 5)) 0) (3, 4, 5) (Vec3 2 1 0) 0 = Vec3 2 0 0"
  "perimeter_r (Vec3 0 0 0, Vec3 3 0 0, Vec3 3 4 0)
     (Vec3 1 0 0, Vec3 0 1 0, Vec3 (- (3 / 5)) (- (4 / 5)) 0) (3, 4, 5) (Vec3 2 1 0) 1 = Vec3 3 1 0"
  "perimeter_r (Vec3 0 0 0, Vec3 3 0 0, Vec3 3 4 0)
     (Vec3 1 0 0, Vec3 0 1 0, Vec3 (- (3 / 5)) (- (4 / 5)) 0) (3, 4, 5) (Vec3 2 1 0) 2 = Vec3 (6 / 5) (8 / 5) 0"
  by (simp_all add: perimeter_r_def closestPointOnLineSegment_def sub3_def next_idx_def Let_def vec_defs)

lemma d345:
  "perimeter_d (Vec3 0 0 0, Vec3 3 0 0, Vec3 3 4 0)
     (Vec3 1 0 0, Vec3 0 1 0, Vec3 (- (3 / 5)) (- (4 / 5)) 0) (3, 4, 5) (Vec3 2 1 0) 0 = 1"
  "perimeter_d (Vec3 0 0 0, Vec3 3 0 0, Vec3 3 4 0)
     (Vec3 1 0 0, Vec3 0 1 0, Vec3 (- (3 / 5)) (- (4 / 5)) 0) (3, 4, 5) (Vec3 2 1 0) 1 = 1"
  "perimeter_d (Vec3 0 0 0, Vec3 3 0 0, Vec3 3 4 0)
     (Vec3 1 0 0, Vec3 0 1 0, Vec3 (- (3 / 5)) (- (4 / 5)) 0) (3, 4, 5) (Vec3 2 1 0) 2 = 1"
  by (simp_all only: perimeter_d_def r345) (simp_all add: squaredNorm_def vec_defs)

lemma closest345:
  "closestPointOnTrianglePerimeter (Vec3 0 0 0, Vec3 3 0 0, Vec3 3 4 0)
     (Vec3 1 0 0, Vec3 0 1 0, Vec3 (- (3 / 5)) (- (4 / 5)) 0) (3, 4, 5) (Vec3 2 1 0)
   = (Vec3 (6 / 5) (8 / 5) 0, 2)"
  by (simp add: closestPointOnTrianglePerimeter_def Let_def d345 r345 del: One_nat_def)

text \<open>
  Claim C4 as stated does not hold. The incentre of the 3-4-5 triangle is at squared
  distance 1 from the closest point of every edge; the claimed tie-break would select
  edge 0 and return (2,0,0), but the function selects edge 2 and returns (1.2,1.6,0).
\<close>

theorem closestPointOnTrianglePerimeter_tie_example:
  "perimeter_d (Vec3 0 0 0, Vec3 3 0 0, Vec3 3 4 0)
     (Vec3 1 0 0, Vec3 0 1 0, Vec3 (- (3 / 5)) (- (4 / 5)) 0) (3, 4, 5) (Vec3 2 1 0) 0 = 1 \<and>
   perimeter_d (Vec3 0 0 0, Vec3 3 0 0, Vec3 3 4 0)
     (Vec3 1 0 0, Vec3 0 1 0, Vec3 (- (3 / 5)) (- (4 / 5)) 0) (3, 4, 5) (Vec3 2 1 0) 1 = 1 \<and>
   perimeter_d (Vec3 0 0 0, Vec3 3 0 0, Vec3 3 4 0)
     (Vec3 1 0 0, Vec3 0 1 0, Vec3 (- (3 / 5)) (- (4 / 5)) 0) (3, 4, 5) (Vec3 2 1 0) 2 = 1 \<and>
   perimeter_r (Vec3 0 0 0, Vec3 3 0 0, Vec3 3 4 0)
     (Vec3 1 0 0, Vec3 0 1 0, Vec3 (- (3 / 5)) (- (4 / 5)) 0) (3, 4, 5) (Vec3 2 1 0) 0 = Vec3 2 0 0 \<and>
   closestPointOnTrianglePerimeter (Vec3 0 0 0, Vec3 3 0 0, Vec3 3 4 0)
     (Vec3 1 0 0, Vec3 0 1 0, Vec3 (- (3 / 5)) (- (4 / 5)) 0) (3, 4, 5) (Vec3 2 1 0)
   = (Vec3 (6 / 5) (8 / 5) 0, 2)"
  using d345 r345(1) closest345 by blast

text \<open>
  Claim C4, amended. \<open>closestPointOnTrianglePerimeter\<close> returns the per-edge closest
  point of the selected edge, whose squared distance to the query point is the least of
  the three; when two or more edges give that least squared distance, the selected edge is
  the highest-numbered among them (edge 2 before edge 1 before edge 0).
\<close>

theorem closestPointOnTrianglePerimeter_nearest:
  "case closestPointOnTrianglePerimeter v edgeDirection edgeLength point of (r, edgeIndex) \<Rightarrow>
     edgeIndex < 3 \<and>
     r = perimeter_r v edgeDirection edgeLength point edgeIndex \<and>
     (\<forall>i<3. perimeter_d v edgeDirection edgeLength point edgeIndex
               \<le> perimeter_d v edgeDirection edgeLength point i) \<and>
     (\<forall>i<3. perimeter_d v edgeDirection edgeLength point i =
             perimeter_d v edgeDirection edgeLength point edgeIndex \<longrightarrow> i \<le> edgeIndex)"
proof -
  have three: "\<And>P. (\<forall>i<3::nat. P i) \<longleftrightarrow> P 0 \<and> P 1 \<and> P 2"
  proof -
    fix P :: "nat \<Rightarrow> bool"
    have "\<And>i::nat. i < 3 \<longleftrightarrow> i = 0 \<or> i = 1 \<or> i = 2" by arith
    then show "(\<forall>i<3::nat. P i) \<longleftrightarrow> P 0 \<and> P 1 \<and> P 2" by auto
  qed
  show ?thesis
    unfolding three closestPointOnTrianglePerimeter_def Let_def
    by auto
qed

theorem closestPointOnTrianglePerimeter_nearest_witness:
  "(0::nat) < 3 \<and>
   perimeter_d (Vec3 0 0 0, Vec3 3 0 0, Vec3 3 4 0)
     (Vec3 1 0 0, Vec3 0 1 0, Vec3 (- (3 / 5)) (- (4 / 5)) 0) (3, 4, 5) (Vec3 2 1 0) 0 =
   perimeter_d (Vec3 0 0 0, Vec3 3 0 0, Vec3 3 4 0)
     (Vec3 1 0 0, Vec3 0 1 0, Vec3 (- (3 / 5)) (- (4 / 5)) 0) (3, 4, 5) (Vec3 2 1 0) 2 \<and>
   (0::nat) \<le> 2 \<and>
   closestPointOnTrianglePerimeter (Vec3 0 0 0, Vec3 3 0 0, Vec3 3 4 0)
     (Vec3 1 0 0, Vec3 0 1 0, Vec3 (- (3 / 5)) (- (4 / 5)) 0) (3, 4, 5) (Vec3 2 1 0)
   = (perimeter_r (Vec3 0 0 0, Vec3 3 0 0, Vec3 3 4 0)
        (Vec3 1 0 0, Vec3 0 1 0, Vec3 (- (3 / 5)) (- (4 / 5)) 0) (3, 4, 5) (Vec3 2 1 0) 2, 2)"
  using closestPointOnTrianglePerimeter_nearest [of "(Vec3 0 0 0, Vec3 3 0 0, Vec3 3 4 0)"
      "(Vec3 1 0 0, Vec3 0 1 0, Vec3 (- (3 / 5)) (- (4 / 5)) 0)" "(3, 4, 5)" "Vec3 2 1 0"]
    closest345 d345 r345
  by simp

subsection \<open>The interval branches and the closing test\<close>

text \<open>
  \<^verbatim>\<open>COMPUTE_INTERVALS\<close> takes its last branch, the coplanar fall-back, exactly when the three
  distances are zero.
\<close>

lemma COMPUTE_None_iff:
  "COMPUTE_INTERVALS VV0 VV1 VV2 D0 D1 D2 (D0 * D1) (D0 * D2) = None \<longleftrightarrow> D0 = 0 \<and> D1 = 0 \<and> D2 = 0"
  by (auto simp: COMPUTE_INTERVALS_def zero_less_mult_iff)

lemma disjoint_sorted_commute: "disjoint_sorted i1 i2 = disjoint_sorted i2 i1"
  by (auto simp: disjoint_sorted_def)

lemma tri_tri_intersect_unfold:
  assumes "plane_dists V0 V1 V2 U0 U1 U2 = (N1, du0, du1, du2)"
    and "plane_dists U0 U1 U2 V0 V1 V2 = (N2, dv0, dv1, dv2)"
  shows "tri_tri_intersect V0 V1 V2 U0 U1 U2 =
     (if du0 * du1 > 0 \<and> du0 * du2 > 0 then False
      else if dv0 * dv1 > 0 \<and> dv0 * dv2 > 0 then False
      else case COMPUTE_INTERVALS (el V0 (largest_index (CROSS N1 N2))) (el V1 (largest_index (CROSS N1 N2)))
                  (el V2 (largest_index (CROSS N1 N2))) dv0 dv1 dv2 (dv0 * dv1) (dv0 * dv2) of
             None \<Rightarrow> coplanar_tri_tri N1 V0 V1 V2 U0 U1 U2
           | Some i1 \<Rightarrow>
               (case COMPUTE_INTERVALS (el U0 (largest_index (CROSS N1 N2))) (el U1 (largest_index (CROSS N1 N2)))
                  (el U2 (largest_index (CROSS N1 N2))) du0 du1 du2 (du0 * du1) (du0 * du2) of
                  None \<Rightarrow> coplanar_tri_tri N1 V0 V1 V2 U0 U1 U2
                | Some i2 \<Rightarrow> \<not> disjoint_sorted i1 i2))"
  unfolding tri_tri_intersect_def assms prod.case Let_def disjoint_sorted_def
  by (simp split: option.splits)

lemma tri_tri_intersect_fallback:
  assumes pu: "plane_dists V0 V1 V2 U0 U1 U2 = (N1, du0, du1, du2)"
    and pv: "plane_dists U0 U1 U2 V0 V1 V2 = (N2, dv0, dv1, dv2)"
    and ru: "\<not> (du0 * du1 > 0 \<and> du0 * du2 > 0)" and rv: "\<not> (dv0 * dv1 > 0 \<and> dv0 * dv2 > 0)"
    and z: "(du0 = 0 \<and> du1 = 0 \<and> du2 = 0) \<or> (dv0 = 0 \<and> dv1 = 0 \<and> dv2 = 0)"
  shows "tri_tri_intersect V0 V1 V2 U0 U1 U2 = coplanar_tri_tri N1 V0 V1 V2 U0 U1 U2"
proof -
  let ?i = "largest_index (CROSS N1 N2)"
  let ?cv = "COMPUTE_INTERVALS (el V0 ?i) (el V1 ?i) (el V2 ?i) dv0 dv1 dv2 (dv0 * dv1) (dv0 * dv2)"
  let ?cu = "COMPUTE_INTERVALS (el U0 ?i) (el U1 ?i) (el U2 ?i) du0 du1 du2 (du0 * du1) (du0 * du2)"
  from z have "?cv = None \<or> ?cu = None" by (simp only: COMPUTE_None_iff) blast
  then have "(case ?cv of None \<Rightarrow> coplanar_tri_tri N1 V0 V1 V2 U0 U1 U2
              | Some i1 \<Rightarrow> (case ?cu of None \<Rightarrow> coplanar_tri_tri N1 V0 V1 V2 U0 U1 U2
                             | Some i2 \<Rightarrow> \<not> disjoint_sorted i1 i2))
             = coplanar_tri_tri N1 V0 V1 V2 U0 U1 U2"
    by (auto split: option.splits)
  then show ?thesis
    unfolding tri_tri_intersect_unfold [OF pu pv]
    by (simp only: ru rv if_False)
qed

subsection \<open>Concrete triangle pairs\<close>

lemma snap_small: "\<bar>x\<bar> < 1 / 1000000 \<Longrightarrow> snap x = 0"
  by (simp add: snap_def EPSILON_def)

lemma snap_big: "\<not> \<bar>x\<bar> < 1 / 1000000 \<Longrightarrow> snap x = x"
  by (simp add: snap_def EPSILON_def)

lemma thin_pd1:
  "plane_dists (Vec3 (1 / 2) 10 1) (Vec3 (1 / 2) 10 (- 1)) (Vec3 (16777217 / 33554432) 10 (- 1))
     (Vec3 0 0 0) (Vec3 1 0 0) (Vec3 0 1 0) = (Vec3 0 (- (1 / 16777216)) 0, 0, 0, 0)"
  by (simp add: plane_dists_def Let_def vec_defs snap_small)

lemma thin_pd2:
  "plane_dists (Vec3 0 0 0) (Vec3 1 0 0) (Vec3 0 1 0)
     (Vec3 (1 / 2) 10 1) (Vec3 (1 / 2) 10 (- 1)) (Vec3 (16777217 / 33554432) 10 (- 1)) = (Vec3 0 0 1, 1, - 1, - 1)"
  by (simp add: plane_dists_def Let_def vec_defs snap_big)

lemmas coplanar_defs = coplanar_tri_tri_def coplanar_axes_def EDGE_AGAINST_TRI_EDGES_def
  EDGE_EDGE_TEST_def POINT_IN_TRI_def

lemma thin_cop1:
  "coplanar_tri_tri (Vec3 0 (- (1 / 16777216)) 0)
     (Vec3 (1 / 2) 10 1) (Vec3 (1 / 2) 10 (- 1)) (Vec3 (16777217 / 33554432) 10 (- 1))
     (Vec3 0 0 0) (Vec3 1 0 0) (Vec3 0 1 0)"
  by (simp add: coplanar_defs Let_def el_def)

lemma thin_cop2:
  "\<not> coplanar_tri_tri (Vec3 0 0 1) (Vec3 0 0 0) (Vec3 1 0 0) (Vec3 0 1 0)
     (Vec3 (1 / 2) 10 1) (Vec3 (1 / 2) 10 (- 1)) (Vec3 (16777217 / 33554432) 10 (- 1))"
  by (simp add: coplanar_defs Let_def el_def)

lemma slip_pd1:
  "plane_dists (Vec3 5 5 6) (Vec3 5 5 4) (Vec3 (10485761 / 2097152) 5 4)
     (Vec3 5 5 5) (Vec3 6 5 5) (Vec3 5 6 5) = (Vec3 0 (- (1 / 1048576)) 0, 0, 0, 0)"
  by (simp add: plane_dists_def Let_def vec_defs snap_small)

lemma slip_pd2:
  "plane_dists (Vec3 5 5 5) (Vec3 6 5 5) (Vec3 5 6 5)
     (Vec3 5 5 6) (Vec3 5 5 4) (Vec3 (10485761 / 2097152) 5 4) = (Vec3 0 0 1, 1, - 1, - 1)"
  by (simp add: plane_dists_def Let_def vec_defs snap_big)

lemma slip_cop:
  "coplanar_tri_tri (Vec3 0 (- (1 / 1048576)) 0)
     (Vec3 5 5 6) (Vec3 5 5 4) (Vec3 (10485761 / 2097152) 5 4)
     (Vec3 5 5 5) (Vec3 6 5 5) (Vec3 5 6 5)"
  by (simp add: coplanar_defs Let_def el_def)

lemma slip_direct:
  "tri_tri_intersect (Vec3 5 5 6) (Vec3 5 5 4) (Vec3 (10485761 / 2097152) 5 4)
     (Vec3 5 5 5) (Vec3 6 5 5) (Vec3 5 6 5)"
  unfolding tri_tri_intersect_unfold [OF slip_pd1 slip_pd2]
  by (simp add: COMPUTE_INTERVALS_def slip_cop)

lemma slip_isectline:
  "tri_tri_intersect_with_isectline (Vec3 5 5 6) (Vec3 5 5 4) (Vec3 (10485761 / 2097152) 5 4)
     (Vec3 5 5 5) (Vec3 6 5 5) (Vec3 5 6 5)
     \<lparr>coplanar = True, isectpt1 = Vec3 0 0 0, isectpt2 = Vec3 0 0 0\<rparr>
   = (False, \<lparr>coplanar = False, isectpt1 = Vec3 0 0 0, isectpt2 = Vec3 0 0 0\<rparr>)"
  unfolding tri_tri_intersect_with_isectline_def slip_pd1 slip_pd2 prod.case Let_def
  by (simp add: compute_intervals_isectline_def isect2_def largest_index_def SORT2_def vec_defs)

lemma far_pd1:
  "plane_dists (Vec3 0 0 0) (Vec3 2000 0 0) (Vec3 0 2000 0)
     (Vec3 1000 5000 (- 1000)) (Vec3 1000 5000 1000) (Vec3 1000 7000 500)
   = (Vec3 0 0 4000000, - 4000000000, 4000000000, 2000000000)"
  by (simp add: plane_dists_def Let_def vec_defs snap_big)

lemma far_pd2:
  "plane_dists (Vec3 1000 5000 (- 1000)) (Vec3 1000 5000 1000) (Vec3 1000 7000 500)
     (Vec3 0 0 0) (Vec3 2000 0 0) (Vec3 0 2000 0)
   = (Vec3 (- 4000000) 0 0, 4000000000, - 4000000000, 4000000000)"
  by (simp add: plane_dists_def Let_def vec_defs snap_big)

lemma far_direct:
  "\<not> tri_tri_intersect (Vec3 0 0 0) (Vec3 2000 0 0) (Vec3 0 2000 0)
     (Vec3 1000 5000 (- 1000)) (Vec3 1000 5000 1000) (Vec3 1000 7000 500)"
  unfolding tri_tri_intersect_unfold [OF far_pd1 far_pd2]
  by (simp add: COMPUTE_INTERVALS_def ISECT_def largest_index_def CROSS_def el_def
      disjoint_sorted_def SORT_def)

lemma inner_pd1:
  "plane_dists (Vec3 0 0 0) (Vec3 4 0 0) (Vec3 0 4 0) (Vec3 1 1 0) (Vec3 2 1 0) (Vec3 1 2 0)
   = (Vec3 0 0 16, 0, 0, 0)"
  by (simp add: plane_dists_def Let_def vec_defs snap_small)

lemma inner_pd2:
  "plane_dists (Vec3 1 1 0) (Vec3 2 1 0) (Vec3 1 2 0) (Vec3 0 0 0) (Vec3 4 0 0) (Vec3 0 4 0)
   = (Vec3 0 0 1, 0, 0, 0)"
  by (simp add: plane_dists_def Let_def vec_defs snap_small)

lemma inner_cop:
  "coplanar_tri_tri (Vec3 0 0 16) (Vec3 0 0 0) (Vec3 4 0 0) (Vec3 0 4 0) (Vec3 1 1 0) (Vec3 2 1 0) (Vec3 1 2 0)"
  by (simp add: coplanar_defs Let_def el_def)

lemma edge_pd1:
  "plane_dists (Vec3 0 0 0) (Vec3 1 0 0) (Vec3 0 1 0) (Vec3 1 0 0) (Vec3 0 0 0) (Vec3 0 0 1)
     = (Vec3 0 0 1, 0, 0, 1)"
  by (simp add: plane_dists_def Let_def vec_defs snap_small snap_big)

lemma edge_pd2:
  "plane_dists (Vec3 1 0 0) (Vec3 0 0 0) (Vec3 0 0 1) (Vec3 0 0 0) (Vec3 1 0 0) (Vec3 0 1 0)
     = (Vec3 0 1 0, 0, 0, 1)"
  by (simp add: plane_dists_def Let_def vec_defs snap_small snap_big)

subsection \<open>Symmetry of the overlap test\<close>

lemma largest_index_CROSS_commute: "largest_index (CROSS N2 N1) = largest_index (CROSS N1 N2)"
proof -
  have "\<And>a b c d :: real. \<bar>a * b - c * d\<bar> = \<bar>d * c - b * a\<bar>"
    by (simp add: abs_minus_commute mult.commute)
  then have "\<bar>el (CROSS N2 N1) 0\<bar> = \<bar>el (CROSS N1 N2) 0\<bar>"
    "\<bar>el (CROSS N2 N1) 1\<bar> = \<bar>el (CROSS N1 N2) 1\<bar>"
    "\<bar>el (CROSS N2 N1) 2\<bar> = \<bar>el (CROSS N1 N2) 2\<bar>"
    by (simp_all add: CROSS_def el_def)
  then show ?thesis by (simp only: largest_index_def)
qed

text \<open>
  Claim C2 as stated does not hold. Let \<open>V\<close> be the thin triangle
  (1/2,10,1), (1/2,10,-1), (1/2 + 2^-25,10,-1) and \<open>U\<close> the triangle (0,0,0), (1,0,0),
  (0,1,0). The normal of \<open>V\<close> is so short that the distances of \<open>U\<close> to the plane of \<open>V\<close>
  are all snapped to zero, while \<open>V\<close> crosses the plane of \<open>U\<close>. With \<open>V\<close> first the
  coplanar test runs in the projection chosen by the normal of \<open>V\<close> and answers true;
  with \<open>U\<close> first it runs in the projection chosen by the normal of \<open>U\<close> and answers false.
\<close>

theorem tri_tri_intersect_asymmetric_example:
  "tri_tri_intersect (Vec3 (1 / 2) 10 1) (Vec3 (1 / 2) 10 (- 1)) (Vec3 (16777217 / 33554432) 10 (- 1))
     (Vec3 0 0 0) (Vec3 1 0 0) (Vec3 0 1 0) \<and>
   \<not> tri_tri_intersect (Vec3 0 0 0) (Vec3 1 0 0) (Vec3 0 1 0)
     (Vec3 (1 / 2) 10 1) (Vec3 (1 / 2) 10 (- 1)) (Vec3 (16777217 / 33554432) 10 (- 1))"
proof
  show "tri_tri_intersect (Vec3 (1 / 2) 10 1) (Vec3 (1 / 2) 10 (- 1)) (Vec3 (16777217 / 33554432) 10 (- 1))
     (Vec3 0 0 0) (Vec3 1 0 0) (Vec3 0 1 0)"
    unfolding tri_tri_intersect_unfold [OF thin_pd1 thin_pd2]
    by (simp add: COMPUTE_INTERVALS_def thin_cop1)
  show "\<not> tri_tri_intersect (Vec3 0 0 0) (Vec3 1 0 0) (Vec3 0 1 0)
     (Vec3 (1 / 2) 10 1) (Vec3 (1 / 2) 10 (- 1)) (Vec3 (16777217 / 33554432) 10 (- 1))"
    unfolding tri_tri_intersect_unfold [OF thin_pd2 thin_pd1]
    by (simp add: COMPUTE_INTERVALS_def thin_cop2)
qed

text \<open>
  The edge-edge test does not depend on which of the two edges comes first, so the coplanar
  test gives the same answer with the triangles exchanged when both normals select the
  same projection plane.
\<close>

lemma accept_sym:
  fixes f d e :: real
  shows "(if (f > 0 \<and> d \<ge> 0 \<and> d \<le> f) \<or> (f < 0 \<and> d \<le> 0 \<and> d \<ge> f)
          then (if f > 0 then e \<ge> 0 \<and> e \<le> f else e \<le> 0 \<and> e \<ge> f) else False) =
         (if (- f > 0 \<and> - e \<ge> 0 \<and> - e \<le> - f) \<or> (- f < 0 \<and> - e \<le> 0 \<and> - e \<ge> - f)
          then (if - f > 0 then - d \<ge> 0 \<and> - d \<le> - f else - d \<le> 0 \<and> - d \<ge> - f) else False)"
  by auto

lemma EDGE_EDGE_TEST_sym:
  "EDGE_EDGE_TEST i0 i1 (el Q1 i0 - el Q0 i0) (el Q1 i1 - el Q0 i1) Q0 P0 P1 =
   EDGE_EDGE_TEST i0 i1 (el P1 i0 - el P0 i0) (el P1 i1 - el P0 i1) P0 Q0 Q1"
proof -
  define Ax Ay Bx By Cx Cy where "Ax = el P1 i0 - el P0 i0" and "Ay = el P1 i1 - el P0 i1"
    and "Bx = el Q0 i0 - el Q1 i0" and "By = el Q0 i1 - el Q1 i1"
    and "Cx = el P0 i0 - el Q0 i0" and "Cy = el P0 i1 - el Q0 i1"
  define f d e where "f = Ay * Bx - Ax * By" and "d = By * Cx - Bx * Cy" and "e = Ax * Cy - Ay * Cx"
  have r: "EDGE_EDGE_TEST i0 i1 (el P1 i0 - el P0 i0) (el P1 i1 - el P0 i1) P0 Q0 Q1 =
        (if (f > 0 \<and> d \<ge> 0 \<and> d \<le> f) \<or> (f < 0 \<and> d \<le> 0 \<and> d \<ge> f)
          then (if f > 0 then e \<ge> 0 \<and> e \<le> f else e \<le> 0 \<and> e \<ge> f) else False)"
    by (simp only: EDGE_EDGE_TEST_def Let_def f_def d_def e_def Ax_def Ay_def Bx_def By_def Cx_def Cy_def)
  have f': "(el Q1 i1 - el Q0 i1) * (el P0 i0 - el P1 i0) - (el Q1 i0 - el Q0 i0) * (el P0 i1 - el P1 i1) = - f"
    by (simp add: f_def Ax_def Ay_def Bx_def By_def algebra_simps)
  have d': "(el P0 i1 - el P1 i1) * (el Q0 i0 - el P0 i0) - (el P0 i0 - el P1 i0) * (el Q0 i1 - el P0 i1) = - e"
    by (simp add: e_def Ax_def Ay_def Cx_def Cy_def algebra_simps)
  have e': "(el Q1 i0 - el Q0 i0) * (el Q0 i1 - el P0 i1) - (el Q1 i1 - el Q0 i1) * (el Q0 i0 - el P0 i0) = - d"
    by (simp add: d_def Bx_def By_def Cx_def Cy_def algebra_simps)
  have l: "EDGE_EDGE_TEST i0 i1 (el Q1 i0 - el Q0 i0) (el Q1 i1 - el Q0 i1) Q0 P0 P1 =
        (if (- f > 0 \<and> - e \<ge> 0 \<and> - e \<le> - f) \<or> (- f < 0 \<and> - e \<le> 0 \<and> - e \<ge> - f)
          then (if - f > 0 then - d \<ge> 0 \<and> - d \<le> - f else - d \<le> 0 \<and> - d \<ge> - f) else False)"
    by (simp only: EDGE_EDGE_TEST_def Let_def f' d' e')
  show ?thesis unfolding l r by (rule accept_sym [symmetric])
qed

lemma coplanar_tri_tri_swap:
  assumes "coplanar_axes N2 = coplanar_axes N1"
  shows "coplanar_tri_tri N2 U0 U1 U2 V0 V1 V2 = coplanar_tri_tri N1 V0 V1 V2 U0 U1 U2"
proof -
  obtain i0 i1 where ax: "coplanar_axes N1 = (i0, i1)" by (cases "coplanar_axes N1")
  have "coplanar_tri_tri N2 U0 U1 U2 V0 V1 V2 =
        (EDGE_AGAINST_TRI_EDGES i0 i1 U0 U1 V0 V1 V2 \<or> EDGE_AGAINST_TRI_EDGES i0 i1 U1 U2 V0 V1 V2 \<or>
         EDGE_AGAINST_TRI_EDGES i0 i1 U2 U0 V0 V1 V2 \<or> POINT_IN_TRI i0 i1 U0 V0 V1 V2 \<or>
         POINT_IN_TRI i0 i1 V0 U0 U1 U2)"
    by (simp add: coplanar_tri_tri_def assms ax)
  also have "\<dots> =
        (EDGE_AGAINST_TRI_EDGES i0 i1 V0 V1 U0 U1 U2 \<or> EDGE_AGAINST_TRI_EDGES i0 i1 V1 V2 U0 U1 U2 \<or>
         EDGE_AGAINST_TRI_EDGES i0 i1 V2 V0 U0 U1 U2 \<or> POINT_IN_TRI i0 i1 V0 U0 U1 U2 \<or>
         POINT_IN_TRI i0 i1 U0 V0 V1 V2)"
    unfolding EDGE_AGAINST_TRI_EDGES_def Let_def
      EDGE_EDGE_TEST_sym [of i0 i1 U1 U0 V0 V1] EDGE_EDGE_TEST_sym [of i0 i1 U1 U0 V1 V2]
      EDGE_EDGE_TEST_sym [of i0 i1 U1 U0 V2 V0]
      EDGE_EDGE_TEST_sym [of i0 i1 U2 U1 V0 V1] EDGE_EDGE_TEST_sym [of i0 i1 U2 U1 V1 V2]
      EDGE_EDGE_TEST_sym [of i0 i1 U2 U1 V2 V0]
      EDGE_EDGE_TEST_sym [of i0 i1 U0 U2 V0 V1] EDGE_EDGE_TEST_sym [of i0 i1 U0 U2 V1 V2]
      EDGE_EDGE_TEST_sym [of i0 i1 U0 U2 V2 V0]
    by auto
  also have "\<dots> = coplanar_tri_tri N1 V0 V1 V2 U0 U1 U2"
    by (simp add: coplanar_tri_tri_def ax)
  finally show ?thesis .
qed

lemma coplanar_axes_scale:
  assumes "k \<noteq> 0"
  shows "coplanar_axes (MULT N k) = coplanar_axes N"
proof -
  have "\<And>a b :: real. \<bar>k * a\<bar> > \<bar>k * b\<bar> \<longleftrightarrow> \<bar>a\<bar> > \<bar>b\<bar>"
    using assms by (simp add: abs_mult)
  then show ?thesis
    by (simp add: coplanar_axes_def MULT_def el_def Let_def)
qed

text \<open>
  Claim C2, amended. \<open>tri_tri_intersect\<close> gives the same result on \<open>(T1, T2)\<close> and on
  \<open>(T2, T1)\<close> except possibly when the calls fall back to the coplanar test and the two
  triangles' normals select different projection planes. That is, the results agree
  whenever one of the same-side rejections fires, or for each triangle the snapped signed
  distances of its vertices to the other triangle's plane are not all zero, or the two
  normals select the same pair of projection axes (as they do when one normal is a nonzero
  multiple of the other, that is, for non-degenerate triangles lying in one plane).
\<close>

theorem tri_tri_intersect_symmetric:
  assumes pu: "plane_dists V0 V1 V2 U0 U1 U2 = (N1, du0, du1, du2)"
    and pv: "plane_dists U0 U1 U2 V0 V1 V2 = (N2, dv0, dv1, dv2)"
    and nc: "(du0 * du1 > 0 \<and> du0 * du2 > 0) \<or> (dv0 * dv1 > 0 \<and> dv0 * dv2 > 0) \<or>
             (\<not> (du0 = 0 \<and> du1 = 0 \<and> du2 = 0) \<and> \<not> (dv0 = 0 \<and> dv1 = 0 \<and> dv2 = 0)) \<or>
             coplanar_axes N1 = coplanar_axes N2"
  shows "tri_tri_intersect V0 V1 V2 U0 U1 U2 = tri_tri_intersect U0 U1 U2 V0 V1 V2"
proof (cases "(du0 * du1 > 0 \<and> du0 * du2 > 0) \<or> (dv0 * dv1 > 0 \<and> dv0 * dv2 > 0)")
  case True
  then show ?thesis
    unfolding tri_tri_intersect_unfold [OF pu pv] tri_tri_intersect_unfold [OF pv pu]
    by auto
next
  case False
  then have ru: "\<not> (du0 * du1 > 0 \<and> du0 * du2 > 0)" and rv: "\<not> (dv0 * dv1 > 0 \<and> dv0 * dv2 > 0)"
    by blast+
  show ?thesis
  proof (cases "(du0 = 0 \<and> du1 = 0 \<and> du2 = 0) \<or> (dv0 = 0 \<and> dv1 = 0 \<and> dv2 = 0)")
    case True
    with False nc have ax: "coplanar_axes N2 = coplanar_axes N1" by auto
    from True have z': "(dv0 = 0 \<and> dv1 = 0 \<and> dv2 = 0) \<or> (du0 = 0 \<and> du1 = 0 \<and> du2 = 0)" by blast
    show ?thesis
      unfolding tri_tri_intersect_fallback [OF pu pv ru rv True]
        tri_tri_intersect_fallback [OF pv pu rv ru z']
      by (rule coplanar_tri_tri_swap [OF ax, symmetric])
  next
    case nz: False
    then have nzu: "\<not> (du0 = 0 \<and> du1 = 0 \<and> du2 = 0)" and nzv: "\<not> (dv0 = 0 \<and> dv1 = 0 \<and> dv2 = 0)"
      by blast+
    let ?i = "largest_index (CROSS N1 N2)"
    from nzv obtain i1 where c1:
      "COMPUTE_INTERVALS (el V0 ?i) (el V1 ?i) (el V2 ?i) dv0 dv1 dv2 (dv0 * dv1) (dv0 * dv2) = Some i1"
      using COMPUTE_None_iff [of "el V0 ?i" "el V1 ?i" "el V2 ?i" dv0 dv1 dv2] by (metis not_Some_eq)
    from nzu obtain i2 where c2:
      "COMPUTE_INTERVALS (el U0 ?i) (el U1 ?i) (el U2 ?i) du0 du1 du2 (du0 * du1) (du0 * du2) = Some i2"
      using COMPUTE_None_iff [of "el U0 ?i" "el U1 ?i" "el U2 ?i" du0 du1 du2] by (metis not_Some_eq)
    have l: "tri_tri_intersect V0 V1 V2 U0 U1 U2 = (\<not> disjoint_sorted i1 i2)"
      unfolding tri_tri_intersect_unfold [OF pu pv]
      by (simp only: ru rv if_False c1 c2 option.case)
    have r: "tri_tri_intersect U0 U1 U2 V0 V1 V2 = (\<not> disjoint_sorted i2 i1)"
      unfolding tri_tri_intersect_unfold [OF pv pu] largest_index_CROSS_commute
      by (simp only: ru rv if_False c1 c2 option.case)
    show ?thesis unfolding l r by (simp only: disjoint_sorted_commute)
  qed
qed

theorem tri_tri_intersect_symmetric_witness:
  "plane_dists (Vec3 0 0 0) (Vec3 4 0 0) (Vec3 0 4 0) (Vec3 1 1 0) (Vec3 2 1 0) (Vec3 1 2 0)
     = (Vec3 0 0 16, 0, 0, 0) \<and>
   plane_dists (Vec3 1 1 0) (Vec3 2 1 0) (Vec3 1 2 0) (Vec3 0 0 0) (Vec3 4 0 0) (Vec3 0 4 0)
     = (Vec3 0 0 1, 0, 0, 0) \<and>
   coplanar_axes (Vec3 0 0 16) = coplanar_axes (Vec3 0 0 1) \<and>
   tri_tri_intersect (Vec3 0 0 0) (Vec3 4 0 0) (Vec3 0 4 0) (Vec3 1 1 0) (Vec3 2 1 0) (Vec3 1 2 0) \<and>
   tri_tri_intersect (Vec3 1 1 0) (Vec3 2 1 0) (Vec3 1 2 0) (Vec3 0 0 0) (Vec3 4 0 0) (Vec3 0 4 0)"
proof -
  have ax: "coplanar_axes (Vec3 0 0 16) = coplanar_axes (Vec3 0 0 1)"
    by (simp add: coplanar_axes_def el_def)
  have h: "((0::real) * 0 > 0 \<and> (0::real) * 0 > 0) \<or> ((0::real) * 0 > 0 \<and> (0::real) * 0 > 0) \<or>
           (\<not> ((0::real) = 0 \<and> (0::real) = 0 \<and> (0::real) = 0) \<and>
            \<not> ((0::real) = 0 \<and> (0::real) = 0 \<and> (0::real) = 0)) \<or>
           coplanar_axes (Vec3 0 0 16) = coplanar_axes (Vec3 0 0 1)"
    using ax by blast
  have t: "tri_tri_intersect (Vec3 0 0 0) (Vec3 4 0 0) (Vec3 0 4 0) (Vec3 1 1 0) (Vec3 2 1 0) (Vec3 1 2 0)"
    unfolding tri_tri_intersect_unfold [OF inner_pd1 inner_pd2]
    by (simp add: COMPUTE_INTERVALS_def inner_cop)
  from tri_tri_intersect_symmetric [OF inner_pd1 inner_pd2 h] t inner_pd1 inner_pd2 ax
  show ?thesis by simp
qed

subsection \<open>Shared edge\<close>

text \<open>
  Claim C8. The triangles (0,0,0), (1,0,0), (0,1,0) and (1,0,0), (0,0,0), (0,0,1), which
  share exactly one edge, are reported as intersecting by \<open>tri_tri_intersect\<close>.
\<close>

theorem tri_tri_intersect_shared_edge:
  "tri_tri_intersect (Vec3 0 0 0) (Vec3 1 0 0) (Vec3 0 1 0) (Vec3 1 0 0) (Vec3 0 0 0) (Vec3 0 0 1)"
  unfolding tri_tri_intersect_unfold [OF edge_pd1 edge_pd2]
  by (simp add: COMPUTE_INTERVALS_def ISECT_def largest_index_def CROSS_def el_def
      disjoint_sorted_def SORT_def)

subsection \<open>Coplanar report of the segment reconstruction\<close>

lemma compute_intervals_isectline_zero:
  "compute_intervals_isectline VERT0 VERT1 VERT2 VV0 VV1 VV2 0 0 0 0 0 cur = (True, cur)"
  by (simp add: compute_intervals_isectline_def)

text \<open>
  When the first triangle's three snapped distances are zero and the first same-side
  rejection does not fire, the first \<^verbatim>\<open>compute_intervals_isectline\<close> call returns 1 and the
  function reports coplanarity: \<^verbatim>\<open>*coplanar\<close> is set, \<^verbatim>\<open>isectpt1\<close> and \<^verbatim>\<open>isectpt2\<close> are left as
  they were, and the result is that of \<open>coplanar_tri_tri\<close>.
\<close>

lemma isectline_first_triangle_coplanar:
  assumes pu: "plane_dists V0 V1 V2 U0 U1 U2 = (N1, du0, du1, du2)"
    and pv: "plane_dists U0 U1 U2 V0 V1 V2 = (N2, 0, 0, 0)"
    and ru: "\<not> (du0 * du1 > 0 \<and> du0 * du2 > 0)"
  shows "tri_tri_intersect_with_isectline V0 V1 V2 U0 U1 U2 out =
           (coplanar_tri_tri N1 V0 V1 V2 U0 U1 U2, out\<lparr>coplanar := True\<rparr>)"
proof -
  from ru have ru': "(0 < du0 * du1 \<and> 0 < du0 * du2) = False" by simp
  show ?thesis
    unfolding tri_tri_intersect_with_isectline_def pu pv prod.case Let_def
    by (simp only: ru' if_False mult_zero_left mult_zero_right less_irrefl simp_thms
        compute_intervals_isectline_zero prod.case if_True)
qed

text \<open>
  Claim C3. When it is the second triangle whose three snapped distances are zero, the
  second \<^verbatim>\<open>compute_intervals_isectline\<close> call returns 1 as well, but lines 658-659
  discard that value, where \<^verbatim>\<open>tri_tri_intersect\<close> returns \<open>coplanar_tri_tri\<close> in the same
  situation. Let \<open>V\<close> be the thin triangle (5,5,6), (5,5,4), (5 + 2^-21,5,4) and \<open>U\<close> the
  triangle (5,5,5), (6,5,5), (5,6,5), which \<open>V\<close> crosses along the edge from (5,5,5). The
  snapped distances of \<open>U\<close> to the plane of \<open>V\<close> are all zero and no same-side rejection
  fires. \<open>tri_tri_intersect_with_isectline\<close> compares the interval of \<open>V\<close> with the
  zero-initialised \<^verbatim>\<open>isect2\<close>, returns 0 and leaves \<^verbatim>\<open>*coplanar\<close> at 0, whereas the coplanar
  test and \<open>tri_tri_intersect\<close> both answer 1.
\<close>

theorem isectline_second_triangle_coplanar_example:
  "plane_dists (Vec3 5 5 6) (Vec3 5 5 4) (Vec3 (10485761 / 2097152) 5 4)
     (Vec3 5 5 5) (Vec3 6 5 5) (Vec3 5 6 5) = (Vec3 0 (- (1 / 1048576)) 0, 0, 0, 0) \<and>
   plane_dists (Vec3 5 5 5) (Vec3 6 5 5) (Vec3 5 6 5)
     (Vec3 5 5 6) (Vec3 5 5 4) (Vec3 (10485761 / 2097152) 5 4) = (Vec3 0 0 1, 1, - 1, - 1) \<and>
   tri_tri_intersect_with_isectline (Vec3 5 5 6) (Vec3 5 5 4) (Vec3 (10485761 / 2097152) 5 4)
     (Vec3 5 5 5) (Vec3 6 5 5) (Vec3 5 6 5)
     \<lparr>coplanar = True, isectpt1 = Vec3 0 0 0, isectpt2 = Vec3 0 0 0\<rparr>
   = (False, \<lparr>coplanar = False, isectpt1 = Vec3 0 0 0, isectpt2 = Vec3 0 0 0\<rparr>) \<and>
   coplanar_tri_tri (Vec3 0 (- (1 / 1048576)) 0)
     (Vec3 5 5 6) (Vec3 5 5 4) (Vec3 (10485761 / 2097152) 5 4)
     (Vec3 5 5 5) (Vec3 6 5 5) (Vec3 5 6 5) \<and>
   tri_tri_intersect (Vec3 5 5 6) (Vec3 5 5 4) (Vec3 (10485761 / 2097152) 5 4)
     (Vec3 5 5 5) (Vec3 6 5 5) (Vec3 5 6 5)"
  using slip_pd1 slip_pd2 slip_isectline slip_cop slip_direct by blast

subsection \<open>The two overlap tests\<close>

text \<open>
  Claim C1. On the pair \<open>V\<close> = (0,0,0), (2000,0,0), (0,2000,0) and \<open>U\<close> = (1000,5000,-1000),
  (1000,5000,1000), (1000,7000,500), two non-degenerate triangles in perpendicular planes,
  the signed distances are 4 * 10^9 and 2 * 10^9 in absolute value and the division-based
  test finds the disjoint intervals [0,1000] and [5000,6333.3]: it returns 0. For
  \<^verbatim>\<open>NoDivTriTriIsect\<close> the same distances give \<^verbatim>\<open>x0 = x1 = y0 = -8e9\<close> and \<^verbatim>\<open>y1 = -6e9\<close>, so
  that \<^verbatim>\<open>xxyy\<close> is about 3.07e39, beyond the largest single-precision value 3.4e38; with
  \<^verbatim>\<open>a = 0\<close> the product \<^verbatim>\<open>a * xxyy\<close> is NaN, both comparisons of the closing test are false
  and the function returns 1.
\<close>

theorem tri_tri_intersect_far_pair:
  "plane_dists (Vec3 0 0 0) (Vec3 2000 0 0) (Vec3 0 2000 0)
     (Vec3 1000 5000 (- 1000)) (Vec3 1000 5000 1000) (Vec3 1000 7000 500)
   = (Vec3 0 0 4000000, - 4000000000, 4000000000, 2000000000) \<and>
   plane_dists (Vec3 1000 5000 (- 1000)) (Vec3 1000 5000 1000) (Vec3 1000 7000 500)
     (Vec3 0 0 0) (Vec3 2000 0 0) (Vec3 0 2000 0)
   = (Vec3 (- 4000000) 0 0, 4000000000, - 4000000000, 4000000000) \<and>
   \<not> tri_tri_intersect (Vec3 0 0 0) (Vec3 2000 0 0) (Vec3 0 2000 0)
     (Vec3 1000 5000 (- 1000)) (Vec3 1000 5000 1000) (Vec3 1000 7000 500)"
  using far_pd1 far_pd2 far_direct by blast

end
